theory Spec2Isabelle
  imports Main "HOL-Library.Multiset"
begin

section \<open>Sparse storage: a model of \<^verbatim>\<open>torch_sparse/storage.py\<close>\<close>

text \<open>
  The module keeps one sparse matrix as a \<open>2 \<times> nnz\<close> coordinate tensor, an optional
  value tensor and six lazily derived arrays. A one-dimensional \<^verbatim>\<open>torch.long\<close> tensor
  is an \<open>int list\<close>; the coordinate tensor is the list of its \<open>nnz\<close> columns, each a
  pair (row, column), so that \<^verbatim>\<open>index[0]\<close> is \<open>map fst\<close> and \<^verbatim>\<open>index[1]\<close> is
  \<open>map snd\<close>. The assertions on dtype, rank and \<^verbatim>\<open>index.size(0) == 2\<close> hold by typing;
  devices are not modelled. The entries of a tensor are unbounded integers: the 64-bit
  range of \<^verbatim>\<open>torch.long\<close> is not modelled, and the extents of a matrix are taken to
  be small enough for its linear keys to fit.
  Every \<^verbatim>\<open>raise\<close> and failed \<^verbatim>\<open>assert\<close> is a value \<open>Inl e\<close>; an operation that
  mutates its receiver returns the receiver as it leaves it.
\<close>

datatype error = AssertionError | RuntimeError | TypeError | IndexError | AttributeError

subsection \<open>The tensor operations the module calls\<close>

text \<open>\<^verbatim>\<open>bool(t)\<close> for a tensor: defined for exactly one element, an error otherwise.\<close>

definition tensor_bool :: "int list \<Rightarrow> error + bool" where
  "tensor_bool t = (case t of [x] \<Rightarrow> Inr (x \<noteq> 0) | _ \<Rightarrow> Inl RuntimeError)"

text \<open>\<^verbatim>\<open>mask.any()\<close> and \<^verbatim>\<open>mask.all()\<close>.\<close>

definition tensor_any :: "bool list \<Rightarrow> bool" where
  "tensor_any msk = list_ex (\<lambda>b. b) msk"

definition tensor_all :: "bool list \<Rightarrow> bool" where
  "tensor_all msk = list_all (\<lambda>b. b) msk"

text \<open>
  \<^verbatim>\<open>torch.cat([idx.new_full((1, ), x), idx[:-1]], dim=0)\<close>: the keys shifted right by
  one place behind \<open>x\<close>. On an empty \<open>idx\<close> it has one element, and the comparison
  with \<open>idx\<close> broadcasts to the empty tensor; \<open>map2\<close> stops at the shorter list.
\<close>

definition shift_right :: "int \<Rightarrow> int list \<Rightarrow> int list" where
  "shift_right x idx = x # butlast idx"

definition tensor_lt :: "int list \<Rightarrow> int list \<Rightarrow> bool list" where
  "tensor_lt a b = map2 (\<lambda>x y. x < y) a b"

definition tensor_gt :: "int list \<Rightarrow> int list \<Rightarrow> bool list" where
  "tensor_gt a b = map2 (\<lambda>x y. x > y) a b"

text \<open>\<^verbatim>\<open>idx.argsort()\<close>: the positions in ascending order of their keys (ties in input order).\<close>

definition argsort :: "int list \<Rightarrow> int list" where
  "argsort ks = map int (sort_key (\<lambda>i. ks ! i) [0..<length ks])"

text \<open>
  \<^verbatim>\<open>x[perm]\<close> with an index tensor: a negative index counts from the end, an index
  out of range raises.
\<close>

fun tensor_index :: "'a list \<Rightarrow> int list \<Rightarrow> error + 'a list" where
  "tensor_index xs [] = Inr []"
| "tensor_index xs (i # ixs) =
     (if - int (length xs) \<le> i \<and> i < int (length xs)
      then (case tensor_index xs ixs of
              Inl e \<Rightarrow> Inl e
            | Inr ys \<Rightarrow> Inr (xs ! nat (if i < 0 then i + int (length xs) else i) # ys))
      else Inl IndexError)"

text \<open>\<^verbatim>\<open>x[mask]\<close> with a boolean mask: the entries where the mask is true.\<close>

definition tensor_mask :: "'a list \<Rightarrow> bool list \<Rightarrow> 'a list" where
  "tensor_mask xs msk = map fst (filter snd (zip xs msk))"

text \<open>\<^verbatim>\<open>torch.cumsum\<close>: the running sums.\<close>

fun cumsum_from :: "int \<Rightarrow> int list \<Rightarrow> int list" where
  "cumsum_from a [] = []"
| "cumsum_from a (x # xs) = (a + x) # cumsum_from (a + x) xs"

definition cumsum :: "int list \<Rightarrow> int list" where
  "cumsum xs = cumsum_from 0 xs"

text \<open>\<^verbatim>\<open>t[1:] - t[:-1]\<close>: the differences of neighbours.\<close>

definition diffs :: "int list \<Rightarrow> int list" where
  "diffs t = map2 (\<lambda>a b. a - b) (tl t) (butlast t)"

text \<open>\<^verbatim>\<open>index.max(dim=-1)[0]\<close> on one row of the index: an error on an empty tensor.\<close>

definition tensor_max :: "int list \<Rightarrow> error + int" where
  "tensor_max t = (case t of [] \<Rightarrow> Inl RuntimeError | x # xs \<Rightarrow> Inr (fold max xs x))"

text \<open>
  \<^verbatim>\<open>torch.full(size, fill_value)\<close>; the fill value is a required argument, and a call
  without it (\<open>None\<close> here) is a \<^verbatim>\<open>TypeError\<close>.
\<close>

definition torch_full :: "int \<Rightarrow> 'v option \<Rightarrow> error + 'v list" where
  "torch_full n fill_value =
     (case fill_value of None \<Rightarrow> Inl TypeError | Some v \<Rightarrow> Inr (replicate (nat n) v))"

text \<open>
  \<^verbatim>\<open>scatter_add(src, index, dim_size=n)\<close> of torch_scatter: \<open>out[j]\<close> is the sum of the
  \<open>src[i]\<close> with \<open>index[i] = j\<close>; a negative size or an index outside \<open>0..n-1\<close>
  is an error.
\<close>

definition scatter_add :: "int list \<Rightarrow> int list \<Rightarrow> int \<Rightarrow> error + int list" where
  "scatter_add src idx dim_size =
     (if dim_size < 0 \<or> list_ex (\<lambda>j. j < 0 \<or> dim_size \<le> j) idx then Inl RuntimeError
      else Inr (map (\<lambda>j. sum_list (map fst (filter (\<lambda>p. snd p = j) (zip src idx))))
                  [0..dim_size - 1]))"

text \<open>
  \<^verbatim>\<open>segment_csr(src, indptr, out=None, reduce)\<close> of torch_scatter: the \<open>i\<close>-th output
  is the reduction of the slice \<^verbatim>\<open>src[indptr[i]:indptr[i+1]]\<close>, one output for every
  pair of neighbouring pointers. The library expects pointers that do not decrease and
  lie within \<open>src\<close>, and reads outside the tensor otherwise; the model raises there.
  The reduction, a name in the library, is the operator itself here (for \<^verbatim>\<open>'min'\<close> and
  \<^verbatim>\<open>'max'\<close> the library returns a pair; \<^verbatim>\<open>coalesce\<close> keeps its first component, the
  reduced values).
\<close>

definition segment_csr :: "'a list \<Rightarrow> int list \<Rightarrow> ('a list \<Rightarrow> 'a) \<Rightarrow> error + 'a list" where
  "segment_csr src indptr reduce =
     (if sorted indptr \<and> list_all (\<lambda>p. 0 \<le> p \<and> p \<le> int (length src)) indptr
      then Inr (map2 (\<lambda>a b. reduce (take (nat (b - a)) (drop (nat a) src)))
                  (butlast indptr) (tl indptr))
      else Inl RuntimeError)"

text \<open>
  Modelled from the spec: the pointer-construction primitive \<^verbatim>\<open>rowptr_cpu.rowptr\<close> /
  \<^verbatim>\<open>rowptr_cuda.rowptr\<close>, a compiled extension of the repository that is not among
  the sources. The spec: given a sorted sequence of bucket ids and a bucket count, it
  produces the offset array of length count + 1, with \<open>ptr[0] = 0\<close> and
  \<open>ptr[i+1] - ptr[i]\<close> the number of ids in bucket \<open>i\<close>; rows \<open>[0,0,1]\<close> with 2 rows
  give \<open>[0,2,3]\<close>.
\<close>

definition func_rowptr :: "int list \<Rightarrow> int \<Rightarrow> int list" where
  "func_rowptr ids n = 0 # cumsum (map (\<lambda>j. int (count_list ids j)) [0..n - 1])"

subsection \<open>The cache flag and its guard\<close>

text \<open>The module's dictionary \<^verbatim>\<open>__cache__ = {'enabled': True}\<close>.\<close>

record cache =
  enabled :: bool

definition initial_cache :: cache where
  "initial_cache = \<lparr>enabled = True\<rparr>"

definition is_cache_enabled :: "cache \<Rightarrow> bool" where
  "is_cache_enabled c = enabled c"

definition set_cache_enabled :: "bool \<Rightarrow> cache \<Rightarrow> cache" where
  "set_cache_enabled mode c = c\<lparr>enabled := mode\<rparr>"

text \<open>
  A \<^verbatim>\<open>no_cache\<close> object has the attribute \<^verbatim>\<open>prev\<close> once \<^verbatim>\<open>__enter__\<close> has run;
  \<^verbatim>\<open>__exit__\<close> before that fails on the missing attribute.
\<close>

record no_cache =
  prev :: "bool option"

definition no_cache_new :: no_cache where
  "no_cache_new = \<lparr>prev = None\<rparr>"

definition no_cache_enter :: "no_cache \<Rightarrow> cache \<Rightarrow> no_cache \<times> cache" where
  "no_cache_enter g c = (g\<lparr>prev := Some (is_cache_enabled c)\<rparr>, set_cache_enabled False c)"

definition no_cache_exit :: "no_cache \<Rightarrow> cache \<Rightarrow> error + cache" where
  "no_cache_exit g c =
     (case prev g of None \<Rightarrow> Inl AttributeError | Some p \<Rightarrow> Inr (set_cache_enabled p c))"

text \<open>
  \<^verbatim>\<open>cached_property.__get__\<close>: the slot \<^verbatim>\<open>_name\<close> if it is not \<^verbatim>\<open>None\<close>; otherwise
  the value the property's function computes, stored in the slot only when the flag is
  enabled. The function may itself read other properties, so it returns the object too.
\<close>

definition cached_property ::
  "('s \<Rightarrow> 'a option) \<Rightarrow> ('a \<Rightarrow> 's \<Rightarrow> 's) \<Rightarrow> (cache \<Rightarrow> 's \<Rightarrow> error + 'a \<times> 's) \<Rightarrow>
   cache \<Rightarrow> 's \<Rightarrow> error + 'a \<times> 's" where
  "cached_property slot store func c obj =
     (case slot obj of
        Some v \<Rightarrow> Inr (v, obj)
      | None \<Rightarrow>
          (case func c obj of
             Inl e \<Rightarrow> Inl e
           | Inr (v, obj') \<Rightarrow> Inr (v, if is_cache_enabled c then store v obj' else obj')))"

subsection \<open>The storage and its constructor\<close>

record 'v storage =
  s_index :: "(int \<times> int) list"
  s_value :: "'v list option"
  s_sparse_size :: "int \<times> int"
  s_rowcount :: "int list option"
  s_rowptr :: "int list option"
  s_colcount :: "int list option"
  s_colptr :: "int list option"
  s_csr2csc :: "int list option"
  s_csc2csr :: "int list option"

definition row :: "'v storage \<Rightarrow> int list" where
  "row s = map fst (s_index s)"

definition col :: "'v storage \<Rightarrow> int list" where
  "col s = map snd (s_index s)"

text \<open>
  Modelled from the spec: the method \<^verbatim>\<open>nnz\<close>, which \<^verbatim>\<open>set_value_\<close>, \<^verbatim>\<open>set_value\<close>
  and \<^verbatim>\<open>sparse_resize\<close> call and the class does not define. The spec: the number of
  stored entries, the common length of the two coordinate sequences.
\<close>

definition nnz :: "'v storage \<Rightarrow> int" where
  "nnz s = int (length (s_index s))"

text \<open>The linear key \<^verbatim>\<open>sparse_size[1] * index[0] + index[1]\<close> of every entry.\<close>

definition row_major_keys :: "int \<Rightarrow> (int \<times> int) list \<Rightarrow> int list" where
  "row_major_keys num_cols index = map (\<lambda>p. num_cols * fst p + snd p) index"

definition wrong_numel :: "int list option \<Rightarrow> int \<Rightarrow> bool" where
  "wrong_numel t n = (case t of None \<Rightarrow> False | Some xs \<Rightarrow> int (length xs) \<noteq> n)"

definition wrong_numel_ptr :: "int list option \<Rightarrow> int \<Rightarrow> bool" where
  "wrong_numel_ptr t n = (case t of None \<Rightarrow> False | Some xs \<Rightarrow> int (length xs) - 1 \<noteq> n)"

definition default_size :: "(int \<times> int) list \<Rightarrow> error + int \<times> int" where
  "default_size index =
     (case tensor_max (map fst index) of
        Inl e \<Rightarrow> Inl e
      | Inr r \<Rightarrow> (case tensor_max (map snd index) of
                    Inl e \<Rightarrow> Inl e
                  | Inr c \<Rightarrow> Inr (r + 1, c + 1)))"

text \<open>
  The last step of \<^verbatim>\<open>__init__\<close> (lines 123 to 141): unless the caller said the index
  is sorted, the keys are compared with their left neighbours and, where one is smaller,
  index and value are reordered by the argsort of the keys and the two permutations are
  dropped.
\<close>

definition init_store ::
  "(int \<times> int) list \<Rightarrow> 'v list option \<Rightarrow> int \<times> int \<Rightarrow> int list option \<Rightarrow> int list option \<Rightarrow>
   int list option \<Rightarrow> int list option \<Rightarrow> int list option \<Rightarrow> int list option \<Rightarrow> bool \<Rightarrow>
   error + 'v storage" where
  "init_store index val sparse_size rowcount rowptr colcount colptr csr2csc csc2csr is_sorted =
     (let idx = row_major_keys (snd sparse_size) index
      in if \<not> is_sorted \<and> tensor_any (tensor_lt idx (shift_right 0 idx))
         then (let perm = argsort idx
               in case tensor_index index perm of
                    Inl e \<Rightarrow> Inl e
                  | Inr index' \<Rightarrow>
                      (case (case val of
                               None \<Rightarrow> Inr None
                             | Some v \<Rightarrow> (case tensor_index v perm of
                                           Inl e \<Rightarrow> Inl e
                                         | Inr v' \<Rightarrow> Inr (Some v'))) of
                         Inl e \<Rightarrow> Inl e
                       | Inr val' \<Rightarrow>
                           Inr \<lparr>s_index = index', s_value = val', s_sparse_size = sparse_size,
                                s_rowcount = rowcount, s_rowptr = rowptr,
                                s_colcount = colcount, s_colptr = colptr,
                                s_csr2csc = None, s_csc2csr = None\<rparr>))
         else Inr \<lparr>s_index = index, s_value = val, s_sparse_size = sparse_size,
                   s_rowcount = rowcount, s_rowptr = rowptr,
                   s_colcount = colcount, s_colptr = colptr,
                   s_csr2csc = csr2csc, s_csc2csr = csc2csr\<rparr>)"

text \<open>\<^verbatim>\<open>SparseStorage.__init__\<close>: the assertions in the order of the source, then the store.\<close>

definition SparseStorage_init ::
  "(int \<times> int) list \<Rightarrow> 'v list option \<Rightarrow> (int \<times> int) option \<Rightarrow> int list option \<Rightarrow>
   int list option \<Rightarrow> int list option \<Rightarrow> int list option \<Rightarrow> int list option \<Rightarrow>
   int list option \<Rightarrow> bool \<Rightarrow> error + 'v storage" where
  "SparseStorage_init index val sparse_size rowcount rowptr colcount colptr csr2csc csc2csr
       is_sorted =
     (if (case val of None \<Rightarrow> False | Some v \<Rightarrow> length v \<noteq> length index)
      then Inl AssertionError
      else case (case sparse_size of None \<Rightarrow> default_size index | Some sz \<Rightarrow> Inr sz) of
        Inl e \<Rightarrow> Inl e
      | Inr sz \<Rightarrow>
          if wrong_numel rowcount (fst sz) then Inl AssertionError
          else if wrong_numel_ptr rowptr (fst sz) then Inl AssertionError
          else if wrong_numel colcount (snd sz) then Inl AssertionError
          else if wrong_numel_ptr colptr (snd sz) then Inl AssertionError
          else if wrong_numel csr2csc (int (length index)) then Inl AssertionError
          else if wrong_numel csc2csr (int (length index)) then Inl AssertionError
          else init_store index val sz rowcount rowptr colcount colptr csr2csc csc2csr
                 is_sorted)"

subsection \<open>The derived properties\<close>

text \<open>
  Each property is a \<^verbatim>\<open>cached_property\<close> over its slot. Reading one takes the cache
  flag and the storage and returns the value with the storage as the read left it.
\<close>

definition rowptr_func :: "cache \<Rightarrow> 'v storage \<Rightarrow> error + int list \<times> 'v storage" where
  "rowptr_func c s = Inr (func_rowptr (row s) (fst (s_sparse_size s)), s)"

definition rowptr :: "cache \<Rightarrow> 'v storage \<Rightarrow> error + int list \<times> 'v storage" where
  "rowptr = cached_property s_rowptr (\<lambda>v s. s\<lparr>s_rowptr := Some v\<rparr>) rowptr_func"

definition rowcount_func :: "cache \<Rightarrow> 'v storage \<Rightarrow> error + int list \<times> 'v storage" where
  "rowcount_func c s =
     (case rowptr c s of
        Inl e \<Rightarrow> Inl e
      | Inr (rp, s1) \<Rightarrow> Inr (diffs rp, s1))"

definition rowcount :: "cache \<Rightarrow> 'v storage \<Rightarrow> error + int list \<times> 'v storage" where
  "rowcount = cached_property s_rowcount (\<lambda>v s. s\<lparr>s_rowcount := Some v\<rparr>) rowcount_func"

text \<open>
  \<^verbatim>\<open>colcount\<close>: where \<^verbatim>\<open>has_colptr()\<close> holds, the read of \<^verbatim>\<open>self.colptr\<close> finds the
  slot and returns it as it is.
\<close>

definition colcount_func :: "cache \<Rightarrow> 'v storage \<Rightarrow> error + int list \<times> 'v storage" where
  "colcount_func c s =
     (case s_colptr s of
        Some cp \<Rightarrow> Inr (diffs cp, s)
      | None \<Rightarrow>
          (case scatter_add (map (\<lambda>x. 1) (col s)) (col s) (snd (s_sparse_size s)) of
             Inl e \<Rightarrow> Inl e
           | Inr cc \<Rightarrow> Inr (cc, s)))"

definition colcount :: "cache \<Rightarrow> 'v storage \<Rightarrow> error + int list \<times> 'v storage" where
  "colcount = cached_property s_colcount (\<lambda>v s. s\<lparr>s_colcount := Some v\<rparr>) colcount_func"

text \<open>The linear key \<^verbatim>\<open>sparse_size[0] * col + row\<close> of every entry.\<close>

definition column_major_keys :: "int \<Rightarrow> (int \<times> int) list \<Rightarrow> int list" where
  "column_major_keys num_rows index = map (\<lambda>p. num_rows * snd p + fst p) index"

definition csr2csc_func :: "cache \<Rightarrow> 'v storage \<Rightarrow> error + int list \<times> 'v storage" where
  "csr2csc_func c s =
     Inr (argsort (column_major_keys (fst (s_sparse_size s)) (s_index s)), s)"

definition csr2csc :: "cache \<Rightarrow> 'v storage \<Rightarrow> error + int list \<times> 'v storage" where
  "csr2csc = cached_property s_csr2csc (\<lambda>v s. s\<lparr>s_csr2csc := Some v\<rparr>) csr2csc_func"

definition csc2csr_func :: "cache \<Rightarrow> 'v storage \<Rightarrow> error + int list \<times> 'v storage" where
  "csc2csr_func c s =
     (case csr2csc c s of
        Inl e \<Rightarrow> Inl e
      | Inr (p, s1) \<Rightarrow> Inr (argsort p, s1))"

definition csc2csr :: "cache \<Rightarrow> 'v storage \<Rightarrow> error + int list \<times> 'v storage" where
  "csc2csr = cached_property s_csc2csr (\<lambda>v s. s\<lparr>s_csc2csr := Some v\<rparr>) csc2csr_func"

text \<open>
  \<^verbatim>\<open>colptr\<close> tests \<^verbatim>\<open>if self._csr2csc:\<close>, the truth value of the slot: \<^verbatim>\<open>None\<close>
  is false, a tensor is converted by \<^verbatim>\<open>bool\<close>.
\<close>

definition truthy :: "int list option \<Rightarrow> error + bool" where
  "truthy t = (case t of None \<Rightarrow> Inr False | Some xs \<Rightarrow> tensor_bool xs)"

definition colptr_func :: "cache \<Rightarrow> 'v storage \<Rightarrow> error + int list \<times> 'v storage" where
  "colptr_func c s =
     (case truthy (s_csr2csc s) of
        Inl e \<Rightarrow> Inl e
      | Inr True \<Rightarrow>
          (case csr2csc c s of
             Inl e \<Rightarrow> Inl e
           | Inr (p, s1) \<Rightarrow>
               (case tensor_index (col s1) p of
                  Inl e \<Rightarrow> Inl e
                | Inr cs \<Rightarrow> Inr (func_rowptr cs (snd (s_sparse_size s1)), s1)))
      | Inr False \<Rightarrow>
          (case colcount c s of
             Inl e \<Rightarrow> Inl e
           | Inr (cc, s1) \<Rightarrow> Inr (0 # cumsum cc, s1)))"

definition colptr :: "cache \<Rightarrow> 'v storage \<Rightarrow> error + int list \<times> 'v storage" where
  "colptr = cached_property s_colptr (\<lambda>v s. s\<lparr>s_colptr := Some v\<rparr>) colptr_func"

text \<open>The names of \<^verbatim>\<open>cache_keys\<close>, and \<^verbatim>\<open>getattr(self, key)\<close> for one of them.\<close>

datatype cache_key = Rowcount | Rowptr | Colcount | Colptr | Csr2csc | Csc2csr

fun slot :: "cache_key \<Rightarrow> 'v storage \<Rightarrow> int list option" where
  "slot Rowcount = s_rowcount"
| "slot Rowptr = s_rowptr"
| "slot Colcount = s_colcount"
| "slot Colptr = s_colptr"
| "slot Csr2csc = s_csr2csc"
| "slot Csc2csr = s_csc2csr"

fun property_func :: "cache_key \<Rightarrow> cache \<Rightarrow> 'v storage \<Rightarrow> error + int list \<times> 'v storage" where
  "property_func Rowcount = rowcount_func"
| "property_func Rowptr = rowptr_func"
| "property_func Colcount = colcount_func"
| "property_func Colptr = colptr_func"
| "property_func Csr2csc = csr2csc_func"
| "property_func Csc2csr = csc2csr_func"

fun read_property :: "cache_key \<Rightarrow> cache \<Rightarrow> 'v storage \<Rightarrow> error + int list \<times> 'v storage" where
  "read_property Rowcount = rowcount"
| "read_property Rowptr = rowptr"
| "read_property Colcount = colcount"
| "read_property Colptr = colptr"
| "read_property Csr2csc = csr2csc"
| "read_property Csc2csr = csc2csr"

subsection \<open>Setting the value\<close>

definition layouts :: "string list" where
  "layouts = [''coo'', ''csr'', ''csc'']"

text \<open>\<^verbatim>\<open>get_layout\<close>; the warning for a missing layout has no effect on the result.\<close>

definition get_layout :: "string option \<Rightarrow> error + string" where
  "get_layout layout =
     (let l = (case layout of None \<Rightarrow> ''coo'' | Some x \<Rightarrow> x)
      in if l \<in> set layouts then Inr l else Inl AssertionError)"

text \<open>
  The argument of the setters: a Python \<^verbatim>\<open>int\<close> or \<^verbatim>\<open>float\<close>, a tensor, or any other
  object (which has no \<^verbatim>\<open>device\<close>).
\<close>

datatype 'v value_arg = Scalar 'v | Tensor "'v list" | Other

text \<open>
  The first lines shared by \<^verbatim>\<open>set_value_\<close> and \<^verbatim>\<open>set_value\<close>: the tensor to store,
  and the storage after the read of \<^verbatim>\<open>csc2csr\<close> that a CSC layout makes.
\<close>

definition value_to_store ::
  "cache \<Rightarrow> 'v storage \<Rightarrow> 'v value_arg \<Rightarrow> string option \<Rightarrow> error + 'v list \<times> 'v storage" where
  "value_to_store c s v layout =
     (case (case v of
              Scalar x \<Rightarrow>
                (case torch_full (nnz s) None of
                   Inl e \<Rightarrow> Inl e
                 | Inr t \<Rightarrow> Inr (t, s))
            | Tensor t \<Rightarrow>
                (case get_layout layout of
                   Inl e \<Rightarrow> Inl e
                 | Inr l \<Rightarrow>
                     if l = ''csc''
                     then (case csc2csr c s of
                             Inl e \<Rightarrow> Inl e
                           | Inr (p, s1) \<Rightarrow>
                               (case tensor_index t p of
                                  Inl e \<Rightarrow> Inl e
                                | Inr t' \<Rightarrow> Inr (t', s1)))
                     else Inr (t, s))
            | Other \<Rightarrow> Inl AttributeError) of
        Inl e \<Rightarrow> Inl e
      | Inr (t, s1) \<Rightarrow>
          if length t \<noteq> length (s_index s1) then Inl AssertionError else Inr (t, s1))"

text \<open>\<^verbatim>\<open>set_value_\<close>, the setter that mutates the receiver.\<close>

definition set_value_inplace ::
  "cache \<Rightarrow> 'v storage \<Rightarrow> 'v value_arg \<Rightarrow> string option \<Rightarrow> error + 'v storage" where
  "set_value_inplace c s v layout =
     (case value_to_store c s v layout of
        Inl e \<Rightarrow> Inl e
      | Inr (t, s1) \<Rightarrow> Inr (s1\<lparr>s_value := Some t\<rparr>))"

text \<open>\<^verbatim>\<open>set_value\<close> returns the new storage and leaves the receiver as the reads left it.\<close>

definition set_value ::
  "cache \<Rightarrow> 'v storage \<Rightarrow> 'v value_arg \<Rightarrow> string option \<Rightarrow> error + 'v storage \<times> 'v storage" where
  "set_value c s v layout =
     (case value_to_store c s v layout of
        Inl e \<Rightarrow> Inl e
      | Inr (t, s1) \<Rightarrow>
          (case SparseStorage_init (s_index s1) (Some t) (Some (s_sparse_size s1))
                  (s_rowcount s1) (s_rowptr s1) (s_colcount s1) (s_colptr s1)
                  (s_csr2csc s1) (s_csc2csr s1) True of
             Inl e \<Rightarrow> Inl e
           | Inr s2 \<Rightarrow> Inr (s2, s1)))"

subsection \<open>Resizing\<close>

text \<open>
  \<^verbatim>\<open>sparse_resize(*sizes)\<close>. For \<open>diff \<le> 0\<close> the slice \<^verbatim>\<open>t[:-diff]\<close> has the
  non-negative bound \<open>- diff\<close>: it keeps the first \<open>- diff\<close> entries.
\<close>

definition resize_count :: "int \<Rightarrow> int list option \<Rightarrow> int list option" where
  "resize_count d t =
     (if d > 0 then map_option (\<lambda>xs. xs @ replicate (nat d) 0) t
      else map_option (take (nat (- d))) t)"

definition resize_ptr :: "int \<Rightarrow> int \<Rightarrow> int list option \<Rightarrow> int list option" where
  "resize_ptr d n t =
     (if d > 0 then map_option (\<lambda>xs. xs @ replicate (nat d) n) t
      else map_option (take (nat (- d))) t)"

definition sparse_resize :: "'v storage \<Rightarrow> int list \<Rightarrow> error + 'v storage" where
  "sparse_resize s sizes =
     (if length sizes \<noteq> 2 then Inl AssertionError
      else (let old_sizes = s_sparse_size s;
                n = nnz s;
                diff_0 = sizes ! 0 - fst old_sizes;
                diff_1 = sizes ! 1 - snd old_sizes
            in SparseStorage_init (s_index s) (s_value s) (Some (sizes ! 0, sizes ! 1))
                 (resize_count diff_0 (s_rowcount s)) (resize_ptr diff_0 n (s_rowptr s))
                 (resize_count diff_1 (s_colcount s)) (resize_ptr diff_1 n (s_colptr s))
                 (s_csr2csc s) (s_csc2csr s) True))"

subsection \<open>Coalescing\<close>

definition first_occurrence :: "'v storage \<Rightarrow> bool list" where
  "first_occurrence s =
     (let idx = row_major_keys (snd (s_sparse_size s)) (s_index s)
      in tensor_gt idx (shift_right (- 1) idx))"


text \<open>
  \<^verbatim>\<open>coalesce\<close>, with the function that it applies to the group ids
  \<^verbatim>\<open>mask.cumsum(0) - 1\<close> and the value as a parameter.
\<close>

definition coalesce_with ::
  "(int list \<Rightarrow> 'v list \<Rightarrow> error + 'v list) \<Rightarrow> 'v storage \<Rightarrow> error + 'v storage" where
  "coalesce_with segment s =
     (let msk = first_occurrence s
      in if tensor_all msk then Inr s
         else (let index = tensor_mask (s_index s) msk
               in case (case s_value s of
                          None \<Rightarrow> Inr None
                        | Some v \<Rightarrow>
                            (case segment
                                    (map (\<lambda>x. x - 1) (cumsum (map (\<lambda>b. if b then 1 else 0) msk)))
                                    v of
                               Inl e \<Rightarrow> Inl e
                             | Inr v' \<Rightarrow> Inr (Some v'))) of
                    Inl e \<Rightarrow> Inl e
                  | Inr val \<Rightarrow>
                      SparseStorage_init index val (Some (s_sparse_size s))
                        None None None None None None True))"

text \<open>
  The function is the \<^verbatim>\<open>segment_csr\<close> that the module imports from torch_scatter. The
  call \<^verbatim>\<open>segment_csr(idx, value, reduce=reduce)\<close> binds, by position, the group ids to
  \<open>src\<close> and the value to \<open>indptr\<close>; the pointers of the library are of dtype long,
  so the model has a value of integers.
\<close>

definition coalesce :: "int storage \<Rightarrow> (int list \<Rightarrow> int) \<Rightarrow> error + int storage" where
  "coalesce s reduce = coalesce_with (\<lambda>idx v. segment_csr idx v reduce) s"

subsection \<open>The invariants of the data model\<close>




text \<open>
  The storage with the six slots empty, as the constructor stores it when it is given
  no derived array and leaves the order alone; the examples below start from it.
\<close>

definition uncached :: "(int \<times> int) list \<Rightarrow> 'v list option \<Rightarrow> int \<times> int \<Rightarrow> 'v storage" where
  "uncached index val sparse_size =
     \<lparr>s_index = index, s_value = val, s_sparse_size = sparse_size,
      s_rowcount = None, s_rowptr = None, s_colcount = None, s_colptr = None,
      s_csr2csc = None, s_csc2csr = None\<rparr>"

text \<open>
  The mask \<^verbatim>\<open>idx > cat([x], idx[:-1])\<close> by recursion on the keys; the proofs about
  \<open>coalesce\<close> go through this form.
\<close>

fun marks :: "int \<Rightarrow> int list \<Rightarrow> bool list" where
  "marks x [] = []"
| "marks x (k # ks) = (k > x) # marks k ks"

section \<open>Shared lemmas\<close>

subsection \<open>The constructor\<close>

lemmas init_defs = SparseStorage_init_def init_store_def wrong_numel_def wrong_numel_ptr_def
  default_size_def tensor_max_def row_major_keys_def tensor_any_def tensor_lt_def shift_right_def








subsection \<open>Sorting permutations\<close>






subsection \<open>Counts and pointers\<close>

lemma length_cumsum_from: "length (cumsum_from a xs) = length xs"
  by (induction xs arbitrary: a) auto












subsection \<open>First occurrences and coalescing\<close>


lemma length_marks: "length (marks x ks) = length ks"
  by (induction ks arbitrary: x) auto









subsection \<open>Reads of the properties\<close>

lemmas property_defs = rowptr_def rowptr_func_def rowcount_def rowcount_func_def
  colcount_def colcount_func_def colptr_def colptr_func_def csr2csc_def csr2csc_func_def
  csc2csr_def csc2csr_func_def cached_property_def truthy_def

lemma read_disabled_unchanged:
  assumes "\<not> is_cache_enabled c" and "read_property k c s = Inr (v, s')"
  shows "s' = s"
  using assms
  by (cases k) (auto simp: property_defs split: option.splits sum.splits bool.splits)

lemma read_disabled_recomputes:
  assumes "\<not> is_cache_enabled c" and "slot k s = None"
  shows "read_property k c s = property_func k c s"
  using assms
  by (cases k) (auto simp: cached_property_def rowptr_def rowcount_def colcount_def colptr_def
      csr2csc_def csc2csr_def split: sum.splits)

lemma read_materialized:
  assumes "slot k s = Some v"
  shows "read_property k c s = Inr (v, s)"
  using assms
  by (cases k) (auto simp: cached_property_def rowptr_def rowcount_def colcount_def colptr_def
      csr2csc_def csc2csr_def)

lemma read_value_flag_independent:
  "map_sum id fst (read_property k c s) = map_sum id fst (read_property k c' s)"
  by (cases k) (auto simp: property_defs split: option.splits sum.splits bool.splits)

lemma guard_restores:
  "no_cache_enter g c = (g', c1) \<Longrightarrow>
   \<not> is_cache_enabled c1 \<and> no_cache_exit g' cx = Inr c"
  by (auto simp: no_cache_enter_def no_cache_exit_def is_cache_enabled_def set_cache_enabled_def)

subsection \<open>Resizing and the column pointer\<close>

text \<open>
  A resize that does not make the row extent larger fails whenever both row arrays are
  materialized with the lengths the constructor asserts: the slice \<^verbatim>\<open>t[:-diff_0]\<close>
  gives both arrays the same length, and the pointer array must be one longer.
\<close>

lemma resize_without_growth_fails:
  assumes "s_rowcount s = Some rc" and "s_rowptr s = Some rp"
    and "int (length rc) = fst (s_sparse_size s)"
    and "int (length rp) = fst (s_sparse_size s) + 1"
    and "n0 \<le> fst (s_sparse_size s)"
  shows "sparse_resize s [n0, n1] = Inl AssertionError"
proof -
  let ?d = "n0 - fst (s_sparse_size s)"
  have d: "\<not> ?d > 0" using assms(5) by simp
  have "int (length (take (nat (- ?d)) rc)) \<noteq> n0
      \<or> int (length (take (nat (- ?d)) rp)) - 1 \<noteq> n0"
    using assms(3,4,5) by (auto simp: min_def)
  then have "wrong_numel (resize_count ?d (s_rowcount s)) n0
           \<or> wrong_numel_ptr (resize_ptr ?d (nnz s) (s_rowptr s)) n0"
    using d assms(1,2) by (simp add: wrong_numel_def wrong_numel_ptr_def resize_count_def resize_ptr_def)
  then show ?thesis
    by (auto simp: sparse_resize_def SparseStorage_init_def Let_def split: option.splits)
qed

text \<open>
  The read of \<^verbatim>\<open>colptr\<close> raises whenever its slot is empty and the slot of
  \<^verbatim>\<open>csr2csc\<close> holds a tensor of any length but one.
\<close>

lemma colptr_raises_on_materialized_permutation:
  assumes "s_colptr s = None" and "s_csr2csc s = Some p" and "length p \<noteq> 1"
  shows "colptr c s = Inl RuntimeError"
proof -
  have "tensor_bool p = Inl RuntimeError"
    using assms(3) by (cases p; cases "tl p") (auto simp: tensor_bool_def)
  with assms(1,2) show ?thesis
    by (simp add: colptr_def cached_property_def colptr_func_def truthy_def)
qed

subsection \<open>Definitions unfolded in the examples\<close>

lemmas eval_defs = uncached_def initial_cache_def is_cache_enabled_def set_cache_enabled_def
  row_def col_def func_rowptr_def cumsum_def diffs_def scatter_add_def argsort_def
  column_major_keys_def

section \<open>The claims\<close>

subsection \<open>C1: the constructor and the row-major order\<close>




subsection \<open>C2: the coalescing example\<close>

text \<open>
  C2 on the code: for coordinates \<open>[(0,1),(0,1),(1,0)]\<close> with values \<open>[1,2,3]\<close> and
  size \<open>(2,2)\<close> the call \<^verbatim>\<open>segment_csr(idx, value, reduce=reduce)\<close> reduces the
  group ids \<open>[0,0,1]\<close> over the ranges \<open>1:2\<close> and \<open>2:3\<close> that the values give as
  pointers. The storage returned has the coordinates \<open>[(0,1),(1,0)]\<close> and the values
  \<open>[0,1]\<close>, not the sums \<open>[3,3]\<close>.
\<close>

theorem coalesce_example_values:
  "coalesce (uncached [(0, 1), (0, 1), (1, 0)] (Some [1, 2, 3]) (2, 2)) sum_list
     = Inr (uncached [(0, 1), (1, 0)] (Some [0, 1]) (2, 2))"
  by (simp add: coalesce_def coalesce_with_def first_occurrence_def tensor_all_def tensor_gt_def
      tensor_mask_def segment_csr_def cumsum_def init_defs uncached_def)

subsection \<open>C3: resizing there and back\<close>

text \<open>
  C3 on the code: a \<open>1 \<times> 1\<close> storage with its four count and pointer arrays grows to
  \<open>2 \<times> 2\<close>, and the resize back fails. For the difference \<open>-1\<close> the slice
  \<^verbatim>\<open>rowptr[:-diff_0]\<close> is \<^verbatim>\<open>rowptr[:1]\<close>, one entry where the constructor asserts two.
\<close>

theorem resize_round_trip_fails:
  "sparse_resize
     \<lparr>s_index = [(0, 0)], s_value = (None :: int list option), s_sparse_size = (1, 1),
      s_rowcount = Some [1], s_rowptr = Some [0, 1], s_colcount = Some [1],
      s_colptr = Some [0, 1], s_csr2csc = None, s_csc2csr = None\<rparr> [2, 2]
   = Inr \<lparr>s_index = [(0, 0)], s_value = None, s_sparse_size = (2, 2),
      s_rowcount = Some [1, 0], s_rowptr = Some [0, 1, 1], s_colcount = Some [1, 0],
      s_colptr = Some [0, 1, 1], s_csr2csc = None, s_csc2csr = None\<rparr>
   \<and> sparse_resize
     \<lparr>s_index = [(0, 0)], s_value = (None :: int list option), s_sparse_size = (2, 2),
      s_rowcount = Some [1, 0], s_rowptr = Some [0, 1, 1], s_colcount = Some [1, 0],
      s_colptr = Some [0, 1, 1], s_csr2csc = None, s_csc2csr = None\<rparr> [1, 1]
   = Inl AssertionError"
  by (simp add: sparse_resize_def resize_count_def resize_ptr_def nnz_def init_defs)

subsection \<open>C4: setting a scalar value\<close>

text \<open>
  C4 on the code: for a scalar both setters call \<^verbatim>\<open>torch.full\<close> without a fill value,
  so they raise and store nothing, whatever the storage and the scalar.
\<close>

theorem set_value_scalar_raises:
  "set_value_inplace c s (Scalar x) layout = Inl TypeError
   \<and> set_value c s (Scalar x) layout = Inl TypeError"
  by (simp add: set_value_inplace_def set_value_def value_to_store_def torch_full_def)

subsection \<open>C5: reading the column pointer\<close>

text \<open>
  C5 on the code: on a storage with two entries, reading \<^verbatim>\<open>csr2csc\<close> stores the
  permutation \<open>[0,1]\<close>; the read of \<^verbatim>\<open>colptr\<close> that follows takes the truth value of
  that two-element tensor and raises.
\<close>

theorem colptr_after_csr2csc_raises:
  "csr2csc initial_cache
     \<lparr>s_index = [(0, 0), (0, 1)], s_value = (None :: int list option),
      s_sparse_size = (1, 2), s_rowcount = None, s_rowptr = None, s_colcount = None,
      s_colptr = None, s_csr2csc = None, s_csc2csr = None\<rparr>
   = Inr ([0, 1],
      \<lparr>s_index = [(0, 0), (0, 1)], s_value = None,
      s_sparse_size = (1, 2), s_rowcount = None, s_rowptr = None, s_colcount = None,
      s_colptr = None, s_csr2csc = Some [0, 1], s_csc2csr = None\<rparr>)
   \<and> colptr initial_cache
     \<lparr>s_index = [(0, 0), (0, 1)], s_value = (None :: int list option),
      s_sparse_size = (1, 2), s_rowcount = None, s_rowptr = None, s_colcount = None,
      s_colptr = None, s_csr2csc = Some [0, 1], s_csc2csr = None\<rparr>
   = Inl RuntimeError"
  by (simp add: csr2csc_def csr2csc_func_def colptr_def colptr_func_def cached_property_def
      initial_cache_def is_cache_enabled_def argsort_def column_major_keys_def truthy_def
      tensor_bool_def upt_rec)

subsection \<open>C6: pointers against counts\<close>



subsection \<open>C7: the two permutations\<close>



subsection \<open>C8: coalescing twice\<close>



subsection \<open>C9: reads with the cache disabled, and the guard\<close>

text \<open>
  C9, as stated, for every read and every nesting: it fails. A slot that is materialized
  is returned as it is, also while the flag is disabled: on a storage with two entries,
  after reads of \<^verbatim>\<open>colptr\<close> and \<^verbatim>\<open>csr2csc\<close> with the cache enabled, the read of
  \<^verbatim>\<open>colptr\<close> under the disabled flag returns the stored \<open>[0,1,2]\<close>, where the
  property's function raises. And a guard object that is entered a second time before it
  is left overwrites the flag it saved: both exits set the flag to disabled, not to the
  enabled flag the first entry found.
\<close>

theorem memoized_read_and_reentered_guard_counterexample:
  "colptr initial_cache (uncached [(0, 0), (0, 1)] (None :: int list option) (1, 2))
     = Inr ([0, 1, 2],
         (uncached [(0, 0), (0, 1)] None (1, 2))
           \<lparr>s_colcount := Some [1, 1], s_colptr := Some [0, 1, 2]\<rparr>)
   \<and> csr2csc initial_cache
         ((uncached [(0, 0), (0, 1)] (None :: int list option) (1, 2))
           \<lparr>s_colcount := Some [1, 1], s_colptr := Some [0, 1, 2]\<rparr>)
     = Inr ([0, 1],
         (uncached [(0, 0), (0, 1)] None (1, 2))
           \<lparr>s_colcount := Some [1, 1], s_colptr := Some [0, 1, 2],
             s_csr2csc := Some [0, 1]\<rparr>)
   \<and> colptr (set_cache_enabled False initial_cache)
         ((uncached [(0, 0), (0, 1)] (None :: int list option) (1, 2))
           \<lparr>s_colcount := Some [1, 1], s_colptr := Some [0, 1, 2],
             s_csr2csc := Some [0, 1]\<rparr>)
     = Inr ([0, 1, 2],
         (uncached [(0, 0), (0, 1)] None (1, 2))
           \<lparr>s_colcount := Some [1, 1], s_colptr := Some [0, 1, 2],
             s_csr2csc := Some [0, 1]\<rparr>)
   \<and> colptr_func (set_cache_enabled False initial_cache)
         ((uncached [(0, 0), (0, 1)] (None :: int list option) (1, 2))
           \<lparr>s_colcount := Some [1, 1], s_colptr := Some [0, 1, 2],
             s_csr2csc := Some [0, 1]\<rparr>)
     = Inl RuntimeError
   \<and> no_cache_enter no_cache_new initial_cache
     = (\<lparr>prev = Some True\<rparr>, \<lparr>enabled = False\<rparr>)
   \<and> no_cache_enter \<lparr>prev = Some True\<rparr> \<lparr>enabled = False\<rparr>
     = (\<lparr>prev = Some False\<rparr>, \<lparr>enabled = False\<rparr>)
   \<and> no_cache_exit \<lparr>prev = Some False\<rparr> \<lparr>enabled = False\<rparr> = Inr \<lparr>enabled = False\<rparr>
   \<and> \<lparr>enabled = False\<rparr> \<noteq> initial_cache"
  by (simp add: colptr_def colptr_func_def colcount_def colcount_func_def csr2csc_def
      csr2csc_func_def cached_property_def truthy_def tensor_bool_def no_cache_enter_def
      no_cache_exit_def no_cache_new_def eval_defs upto.simps upt_rec)

text \<open>
  C9, amended: while the cache flag is disabled, a read of a derived property whose slot
  is empty is the computation of the property's function, a read of a materialized slot
  returns the stored array, and either read leaves the storage as it was, so that the
  next read does the same again; the value returned is the one a read under any other
  flag returns. Entering a guard disables the flag, and leaving it sets the flag that this
  guard found, whatever the flag is by then; of two nested guards, each an object of its
  own, the inner one restores the disabled flag and the outer one the original.
\<close>

theorem disabled_cache_reads_and_guard:
  assumes "\<not> is_cache_enabled c"
  shows "(slot k s = None \<longrightarrow> read_property k c s = property_func k c s)
       \<and> (\<forall>v. slot k s = Some v \<longrightarrow> read_property k c s = Inr (v, s))
       \<and> (\<forall>v s'. read_property k c s = Inr (v, s') \<longrightarrow>
             s' = s \<and> read_property k c s' = read_property k c s)
       \<and> map_sum id fst (read_property k c s) = map_sum id fst (read_property k c' s)
       \<and> (\<forall>g1' c1 g2' c2 cx.
             no_cache_enter g1 c0 = (g1', c1) \<and> no_cache_enter g2 c1 = (g2', c2) \<longrightarrow>
               \<not> is_cache_enabled c1 \<and> \<not> is_cache_enabled c2
             \<and> no_cache_exit g2' cx = Inr c1 \<and> no_cache_exit g1' cx = Inr c0)"
proof (intro conjI allI impI)
  show "read_property k c s = property_func k c s" if "slot k s = None"
    using assms that by (rule read_disabled_recomputes)
  show "read_property k c s = Inr (v, s)" if "slot k s = Some v" for v
    using that by (rule read_materialized)
  show "s' = s" if "read_property k c s = Inr (v, s')" for v s'
    using assms that by (rule read_disabled_unchanged)
  show "read_property k c s' = read_property k c s" if "read_property k c s = Inr (v, s')" for v s'
    using read_disabled_unchanged [OF assms that] by simp
  show "map_sum id fst (read_property k c s) = map_sum id fst (read_property k c' s)"
    by (rule read_value_flag_independent)
next
  fix g1' c1 g2' c2 cx
  assume a: "no_cache_enter g1 c0 = (g1', c1) \<and> no_cache_enter g2 c1 = (g2', c2)"
  then have "no_cache_enter g1 c0 = (g1', c1)" "no_cache_enter g2 c1 = (g2', c2)" by simp_all
  note guard_restores [OF this(1), of cx] guard_restores [OF this(2), of cx]
  then show "\<not> is_cache_enabled c1" "\<not> is_cache_enabled c2"
    "no_cache_exit g2' cx = Inr c1" "no_cache_exit g1' cx = Inr c0"
    by simp_all
qed

theorem disabled_cache_reads_and_guard_witness:
  "\<not> is_cache_enabled (set_cache_enabled False initial_cache)
   \<and> slot Rowcount (uncached [(0, 0), (0, 1), (1, 0)] (None :: int list option) (2, 2)) = None
   \<and> read_property Rowcount (set_cache_enabled False initial_cache)
         (uncached [(0, 0), (0, 1), (1, 0)] (None :: int list option) (2, 2))
       = property_func Rowcount (set_cache_enabled False initial_cache)
           (uncached [(0, 0), (0, 1), (1, 0)] None (2, 2))
   \<and> read_property Rowcount (set_cache_enabled False initial_cache)
         (uncached [(0, 0), (0, 1), (1, 0)] (None :: int list option) (2, 2))
       = Inr ([2, 1], uncached [(0, 0), (0, 1), (1, 0)] None (2, 2))
   \<and> map_sum id fst (read_property Rowcount (set_cache_enabled False initial_cache)
         (uncached [(0, 0), (0, 1), (1, 0)] (None :: int list option) (2, 2)))
       = map_sum id fst (read_property Rowcount initial_cache
           (uncached [(0, 0), (0, 1), (1, 0)] (None :: int list option) (2, 2)))
   \<and> no_cache_enter no_cache_new initial_cache
       = (\<lparr>prev = Some True\<rparr>, \<lparr>enabled = False\<rparr>)
   \<and> no_cache_enter no_cache_new \<lparr>enabled = False\<rparr>
       = (\<lparr>prev = Some False\<rparr>, \<lparr>enabled = False\<rparr>)
   \<and> no_cache_exit \<lparr>prev = Some False\<rparr> \<lparr>enabled = True\<rparr> = Inr \<lparr>enabled = False\<rparr>
   \<and> no_cache_exit \<lparr>prev = Some True\<rparr> \<lparr>enabled = False\<rparr> = Inr initial_cache"
proof -
  let ?c = "set_cache_enabled False initial_cache"
  let ?s = "uncached [(0, 0), (0, 1), (1, 0)] (None :: int list option) (2, 2)"
  have h: "\<not> is_cache_enabled ?c"
    by (simp add: is_cache_enabled_def set_cache_enabled_def)
  have sl: "slot Rowcount ?s = None" by (simp add: uncached_def)
  have en1: "no_cache_enter no_cache_new initial_cache
       = (\<lparr>prev = Some True\<rparr>, \<lparr>enabled = False\<rparr>)"
    by (simp add: no_cache_enter_def no_cache_new_def eval_defs)
  have en2: "no_cache_enter no_cache_new \<lparr>enabled = False\<rparr>
       = (\<lparr>prev = Some False\<rparr>, \<lparr>enabled = False\<rparr>)"
    by (simp add: no_cache_enter_def no_cache_new_def eval_defs)
  note t = disabled_cache_reads_and_guard [OF h, where k = Rowcount and s = ?s
      and c' = initial_cache and ?g1.0 = no_cache_new and ?c0.0 = initial_cache
      and ?g2.0 = no_cache_new]
  from t sl have a: "read_property Rowcount ?c ?s = property_func Rowcount ?c ?s" by blast
  have b: "read_property Rowcount ?c ?s = Inr ([2, 1], ?s)"
    unfolding a
    by (simp add: rowcount_func_def rowptr_def rowptr_func_def cached_property_def eval_defs
        upto.simps)
  from t have d: "map_sum id fst (read_property Rowcount ?c ?s)
       = map_sum id fst (read_property Rowcount initial_cache ?s)" by blast
  from t en1 en2 have ex:
    "no_cache_exit \<lparr>prev = Some False\<rparr> \<lparr>enabled = True\<rparr> = Inr \<lparr>enabled = False\<rparr>"
    "no_cache_exit \<lparr>prev = Some True\<rparr> \<lparr>enabled = False\<rparr> = Inr initial_cache"
    by blast+
  show ?thesis
    by (intro conjI) (rule h sl a b d en1 en2 ex)+
qed

subsection \<open>C10: the constructor under the sorted hint\<close>

text \<open>
  C10: with \<^verbatim>\<open>is_sorted\<close> set, a storage the constructor returns holds the index, the
  value and the six supplied arrays exactly as given; nothing is checked for order or
  reordered, and the two permutations are kept.
\<close>

theorem init_sorted_hint_stores_as_given:
  assumes "SparseStorage_init index val sparse_size rc rp cc cp p q True = Inr s"
  shows "s_index s = index \<and> s_value s = val
       \<and> s_rowcount s = rc \<and> s_rowptr s = rp
       \<and> s_colcount s = cc \<and> s_colptr s = cp
       \<and> s_csr2csc s = p \<and> s_csc2csr s = q"
  using assms
  by (auto simp: SparseStorage_init_def init_store_def split: if_splits sum.splits)

theorem init_sorted_hint_stores_as_given_witness:
  "SparseStorage_init [(1, 0), (0, 1)] (Some [10, 20 :: int]) (Some (2, 2))
       (Some [1, 1]) (Some [0, 1, 2]) (Some [1, 1]) (Some [0, 1, 2])
       (Some [1, 0]) (Some [1, 0]) True
     = Inr \<lparr>s_index = [(1, 0), (0, 1)], s_value = Some [10, 20],
          s_sparse_size = (2, 2), s_rowcount = Some [1, 1], s_rowptr = Some [0, 1, 2],
          s_colcount = Some [1, 1], s_colptr = Some [0, 1, 2],
          s_csr2csc = Some [1, 0], s_csc2csr = Some [1, 0]\<rparr>
   \<and> \<not> sorted (row_major_keys 2 [(1, 0), (0, 1)])"
proof -
  obtain s where e: "SparseStorage_init [(1, 0), (0, 1)] (Some [10, 20 :: int]) (Some (2, 2))
       (Some [1, 1]) (Some [0, 1, 2]) (Some [1, 1]) (Some [0, 1, 2])
       (Some [1, 0]) (Some [1, 0]) True = Inr s"
    and sz: "s_sparse_size s = (2, 2)"
    by (simp add: init_defs)
  from init_sorted_hint_stores_as_given [OF e] sz
  have "s = \<lparr>s_index = [(1, 0), (0, 1)], s_value = Some [10, 20],
          s_sparse_size = (2, 2), s_rowcount = Some [1, 1], s_rowptr = Some [0, 1, 2],
          s_colcount = Some [1, 1], s_colptr = Some [0, 1, 2],
          s_csr2csc = Some [1, 0], s_csc2csr = Some [1, 0]\<rparr>"
    by (cases s) simp
  with e show ?thesis by (simp add: row_major_keys_def)
qed

end
